theory Spec2Isabelle
  imports Main "HOL-Library.Word"
begin

section \<open>Python values used by hgssoauthentication.py\<close>

text \<open>
  The extension runs on Python 2.7 and on Python 3 and branches on
  \<^verbatim>\<open>sys.version_info.major\<close> itself, so the major version is an input of the model.
  Header values reach the handlers as text of 8-bit characters (Python 2 \<^verbatim>\<open>str\<close>; on
  Python 3 the HTTP client decodes header lines as Latin-1), which is what \<^typ>\<open>string\<close>
  holds.
\<close>

type_synonym byte = "8 word"

text \<open>
  The characters \<^verbatim>\<open>strip()\<close> and \<^verbatim>\<open>split()\<close> treat as whitespace: the six ASCII ones on
  a Python 2 \<^verbatim>\<open>str\<close>, and on a Python 3 \<^verbatim>\<open>str\<close> also the separators FS, GS, RS, US,
  NEL and the no-break space.
\<close>

definition py2_isspace :: "char \<Rightarrow> bool" where
  "py2_isspace c = (let n = (of_char c :: nat) in (9 \<le> n \<and> n \<le> 13) \<or> n = 32)"

definition py3_isspace :: "char \<Rightarrow> bool" where
  "py3_isspace c =
     (let n = (of_char c :: nat)
      in (9 \<le> n \<and> n \<le> 13) \<or> (28 \<le> n \<and> n \<le> 32) \<or> n = 133 \<or> n = 160)"

definition isspace :: "nat \<Rightarrow> char \<Rightarrow> bool" where
  "isspace major c = (if major < 3 then py2_isspace c else py3_isspace c)"

text \<open>Cutting a string at every character that satisfies \<open>P\<close>; the pieces may be empty
  and there is always at least one.\<close>

fun split_when :: "(char \<Rightarrow> bool) \<Rightarrow> string \<Rightarrow> string list" where
  "split_when P [] = [[]]"
| "split_when P (c # cs) =
     (if P c then [] # split_when P cs
      else (let r = split_when P cs in (c # hd r) # tl r))"

text \<open>\<^verbatim>\<open>s.split(sep)\<close> for a one-character separator.\<close>

definition str_split :: "char \<Rightarrow> string \<Rightarrow> string list" where
  "str_split sep s = split_when (\<lambda>c. c = sep) s"

text \<open>\<^verbatim>\<open>s.split()\<close>: the maximal runs of non-whitespace characters.\<close>

definition str_split_ws :: "nat \<Rightarrow> string \<Rightarrow> string list" where
  "str_split_ws major s = filter (\<lambda>f. f \<noteq> []) (split_when (isspace major) s)"

text \<open>\<^verbatim>\<open>s.strip()\<close>.\<close>

definition str_strip :: "nat \<Rightarrow> string \<Rightarrow> string" where
  "str_strip major s = rev (dropWhile (isspace major) (rev (dropWhile (isspace major) s)))"

text \<open>\<^verbatim>\<open>str(n)\<close> for integers.\<close>

definition digit_char :: "nat \<Rightarrow> char" where
  "digit_char d = ''0123456789'' ! d"

fun str_nat :: "nat \<Rightarrow> string" where
  "str_nat n = (if n < 10 then [digit_char n] else str_nat (n div 10) @ [digit_char (n mod 10)])"

declare str_nat.simps [simp del]

definition str_int :: "int \<Rightarrow> string" where
  "str_int i = (if i < 0 then CHR ''-'' # str_nat (nat (- i)) else str_nat (nat i))"

text \<open>\<^verbatim>\<open>"%s" % v\<close> for a value that is a string or \<^verbatim>\<open>None\<close>.\<close>

definition str_opt :: "string option \<Rightarrow> string" where
  "str_opt v = (case v of None \<Rightarrow> ''None'' | Some s \<Rightarrow> s)"

text \<open>\<^verbatim>\<open>d.get(key, default)\<close>.\<close>

definition dict_get :: "('k \<rightharpoonup> 'v) \<Rightarrow> 'k \<Rightarrow> 'v \<Rightarrow> 'v" where
  "dict_get d k dflt = (case d k of None \<Rightarrow> dflt | Some v \<Rightarrow> v)"

subsection \<open>Exceptions\<close>

text \<open>
  The exceptions that can cross the code. \<open>Exception\<close> stands for any other instance of
  Python's \<^verbatim>\<open>Exception\<close>; \<open>SystemExit\<close> (what \<^verbatim>\<open>sys.exit\<close> raises) and
  \<open>KeyboardInterrupt\<close> derive from \<^verbatim>\<open>BaseException\<close> only, so \<^verbatim>\<open>except Exception\<close>
  lets them pass.
\<close>

datatype pyexn =
    GSSError string
  | KeyError string
  | IndexError string
  | ConfigParserError string
  | OSError string
  | Exception string
  | SystemExit int
  | KeyboardInterrupt

fun is_Exception :: "pyexn \<Rightarrow> bool" where
  "is_Exception (SystemExit _) = False"
| "is_Exception KeyboardInterrupt = False"
| "is_Exception _ = True"

fun is_GSSError :: "pyexn \<Rightarrow> bool" where
  "is_GSSError (GSSError _) = True"
| "is_GSSError _ = False"

text \<open>\<^verbatim>\<open>str(e)\<close>.\<close>

fun str_exn :: "pyexn \<Rightarrow> string" where
  "str_exn (GSSError m) = m"
| "str_exn (KeyError k) = CHR 0x27 # k @ [CHR 0x27]"
| "str_exn (IndexError m) = m"
| "str_exn (ConfigParserError m) = m"
| "str_exn (OSError m) = m"
| "str_exn (Exception m) = m"
| "str_exn (SystemExit n) = str_int n"
| "str_exn KeyboardInterrupt = []"

text \<open>\<^verbatim>\<open>xs[i]\<close> for a non-negative index.\<close>

definition py_index :: "'a list \<Rightarrow> nat \<Rightarrow> pyexn + 'a" where
  "py_index xs i =
     (if i < length xs then Inr (xs ! i) else Inl (IndexError ''list index out of range''))"

section \<open>base64.encodebytes\<close>

text \<open>
  \<^verbatim>\<open>encodebytes\<close> (\<^verbatim>\<open>encodestring\<close> on Python 2) cuts its input into pieces of
  \<^verbatim>\<open>MAXBINSIZE\<close> = 57 bytes and passes each to \<^verbatim>\<open>binascii.b2a_base64\<close>, which
  appends a newline to the 76 characters it produces. The output is ASCII, so the
  \<^verbatim>\<open>.decode('utf-8')\<close> of the source maps each byte to the character of the same code;
  the model writes the output as characters from the start.
\<close>

definition b64_alphabet :: string where
  "b64_alphabet = ''ABCDEFGHIJKLMNOPQRSTUVWXYZabcdefghijklmnopqrstuvwxyz0123456789+/''"

definition b64_char :: "nat \<Rightarrow> char" where
  "b64_char n = b64_alphabet ! n"

text \<open>Three input bytes give four characters; one or two left over are padded with \<open>=\<close>.\<close>

fun b64_groups :: "byte list \<Rightarrow> string" where
  "b64_groups [] = []"
| "b64_groups [a] =
     [b64_char (unat a div 4), b64_char (unat a mod 4 * 16), CHR ''='', CHR ''='']"
| "b64_groups [a, b] =
     [b64_char (unat a div 4), b64_char (unat a mod 4 * 16 + unat b div 16),
      b64_char (unat b mod 16 * 4), CHR ''='']"
| "b64_groups (a # b # c # rest) =
     [b64_char (unat a div 4), b64_char (unat a mod 4 * 16 + unat b div 16),
      b64_char (unat b mod 16 * 4 + unat c div 64), b64_char (unat c mod 64)]
     @ b64_groups rest"

definition b2a_base64 :: "byte list \<Rightarrow> string" where
  "b2a_base64 chunk = b64_groups chunk @ [CHR 0x0A]"

definition MAXBINSIZE :: nat where
  "MAXBINSIZE = (76 div 4) * 3"

text \<open>The pieces \<^verbatim>\<open>s[i : i + n]\<close> for \<^verbatim>\<open>i in range(0, len(s), n)\<close>.\<close>

fun chunks :: "nat \<Rightarrow> 'a list \<Rightarrow> 'a list list" where
  "chunks n xs = (if n = 0 \<or> xs = [] then [] else take n xs # chunks n (drop n xs))"

declare chunks.simps [simp del]

definition encodebytes :: "byte list \<Rightarrow> string" where
  "encodebytes s = concat (map b2a_base64 (chunks MAXBINSIZE s))"

text \<open>\<^verbatim>\<open>t.replace("\012", "")\<close>.\<close>

definition remove_newlines :: "string \<Rightarrow> string" where
  "remove_newlines t = filter (\<lambda>c. c \<noteq> CHR 0x0A) t"

text \<open>
  The base64 encoding the specification speaks of (RFC 4648, section 4): the input taken
  three bytes at a time, with padding and no line breaks.
\<close>

definition rfc4648_base64 :: "byte list \<Rightarrow> string" where
  "rfc4648_base64 s = b64_groups s"

section \<open>The world around the handlers\<close>

text \<open>The request object of the host HTTP client: its host and its two header dictionaries.\<close>

record request =
  host :: string
  headers :: "string \<rightharpoonup> string"
  unredirected_hdrs :: "string \<rightharpoonup> string"

text \<open>\<^verbatim>\<open>req.get_host()\<close> (Python 2) returns what Python 3 keeps in \<^verbatim>\<open>req.host\<close>.\<close>

definition get_host :: "request \<Rightarrow> string" where
  "get_host req = host req"

text \<open>
  \<^verbatim>\<open>req.add_header\<close> and \<^verbatim>\<open>req.add_unredirected_header\<close> store under the capitalised key,
  which for \<^verbatim>\<open>'Authorization'\<close> is the key itself.
\<close>

definition add_header :: "request \<Rightarrow> string \<Rightarrow> string \<Rightarrow> request" where
  "add_header req k v = req\<lparr>headers := (headers req)(k \<mapsto> v)\<rparr>"

definition add_unredirected_header :: "request \<Rightarrow> string \<Rightarrow> string \<Rightarrow> request" where
  "add_unredirected_header req k v = req\<lparr>unredirected_hdrs := (unredirected_hdrs req)(k \<mapsto> v)\<rparr>"

text \<open>A response: its status code and \<^verbatim>\<open>resp.info()\<close>, the header lookup.\<close>

record response =
  status :: nat
  info :: "string \<rightharpoonup> string"

text \<open>
  Everything the code does to the outside, in the order it does it: lines printed, child
  processes started (with their argument vector), calls into the name resolver, the SSPI
  and Kerberos libraries, and requests handed back to the host client (as they stand at
  that moment).
\<close>

datatype event =
    Print string
  | Run "string list"
  | Call_gethostbyname_ex string
  | Call_ClientAuth string string
  | Call_authorize nat
  | Call_authGSSClientInit string
  | Call_authGSSClientStep nat string
  | Call_authGSSClientResponse nat
  | Call_open request

record world =
  trace :: "event list"
  environ :: "string \<rightharpoonup> string"

definition emit :: "event \<Rightarrow> world \<Rightarrow> world" where
  "emit ev w = w\<lparr>trace := trace w @ [ev]\<rparr>"

text \<open>
  A parsed configuration file: for a section and an option, nothing when
  \<^verbatim>\<open>has_option\<close> is false, and otherwise what \<^verbatim>\<open>get\<close> does, which is to return the
  value or to raise (the parser interpolates \<^verbatim>\<open>%\<close> in values and rejects a stray one).
\<close>

type_synonym config = "string \<times> string \<Rightarrow> (pyexn + string) option"

definition has_option :: "config \<Rightarrow> string \<Rightarrow> string \<Rightarrow> bool" where
  "has_option cfg s k = (cfg (s, k) \<noteq> None)"

definition config_get :: "config \<Rightarrow> string \<Rightarrow> string \<Rightarrow> pyexn + string" where
  "config_get cfg s k =
     (case cfg (s, k) of None \<Rightarrow> Inl (ConfigParserError ''NoOptionError'') | Some r \<Rightarrow> r)"

text \<open>
  The collaborators, as the functions the code calls. Each returns its value or the
  exception it raises. Security contexts are opaque handles; a step on a GSS context
  gives the context's next state along with the result code. A child process sees the
  world as it is when it starts.

  What they raise in Python: \<^verbatim>\<open>ConfigParser.read\<close> a subclass of \<^verbatim>\<open>configparser.Error\<close>
  on a file it cannot parse (a line before the first section header, a line that is
  neither an option nor a comment); \<^verbatim>\<open>subprocess.run\<close> an \<^verbatim>\<open>OSError\<close> when the executable
  cannot be started; \<^verbatim>\<open>socket.gethostbyname_ex\<close> an \<^verbatim>\<open>OSError\<close> on an unknown host; the
  SSPI constructor and \<^verbatim>\<open>authorize\<close> a \<^verbatim>\<open>pywintypes.error\<close>; the three
  \<^verbatim>\<open>kerberos.authGSSClient\<close> functions a \<^verbatim>\<open>GSSError\<close>; \<^verbatim>\<open>parent.open\<close> whatever the
  host client raises. \<^verbatim>\<open>authGSSClientInit\<close> returns a pair of a result code and the
  context; the step returns 1 when the context is complete, 0 when it continues.
\<close>

record env =
  py_major :: nat
  expanduser :: "string \<Rightarrow> string"
  isfile :: "string \<Rightarrow> bool"
  geteuid :: nat
  read_config :: "string \<Rightarrow> pyexn + config"
  subprocess_run :: "world \<Rightarrow> string list \<Rightarrow> pyexn + int"
  gethostbyname_ex :: "string \<Rightarrow> pyexn + string"
  ClientAuth :: "string \<Rightarrow> string \<Rightarrow> pyexn + nat"
  authorize :: "nat \<Rightarrow> pyexn + byte list"
  authGSSClientInit :: "string \<Rightarrow> pyexn + int \<times> nat"
  authGSSClientStep :: "nat \<Rightarrow> string \<Rightarrow> pyexn + int \<times> nat"
  authGSSClientResponse :: "nat \<Rightarrow> pyexn + string option"
  parent_open :: "request \<Rightarrow> pyexn + response"

section \<open>KerberosAuthHandler.__init__: a ticket from the keytab\<close>

definition hgrcpath :: "env \<Rightarrow> string" where
  "hgrcpath E = expanduser E ''~'' @ ''/.hgrc''"

definition krb5ccname :: "env \<Rightarrow> string" where
  "krb5ccname E = ''/tmp/krb5cc_'' @ str_nat (geteuid E)"

definition klist_argv :: "string \<Rightarrow> string list" where
  "klist_argv cc = [''/usr/bin/klist'', ''-c'', cc, ''-s'']"

definition kinit_argv :: "string \<Rightarrow> string \<Rightarrow> string \<Rightarrow> string list" where
  "kinit_argv cc kt pr = [''/usr/bin/kinit'', ''-k'', ''-c'', cc, ''-t'', kt, pr]"

text \<open>
  The constructor reads \<^verbatim>\<open>~/.hgrc\<close>, and when section \<^verbatim>\<open>krb\<close> names a keytab that exists
  and a principal, points \<^verbatim>\<open>KRB5CCNAME\<close> at a fixed cache, asks \<^verbatim>\<open>klist -s\<close> whether the
  cache holds a valid ticket and runs \<^verbatim>\<open>kinit\<close> when it does not. There is no
  \<^verbatim>\<open>try\<close> in it: whatever a collaborator raises leaves the constructor.
\<close>

definition KerberosAuthHandler_init :: "env \<Rightarrow> world \<Rightarrow> (pyexn + unit) \<times> world" where
  "KerberosAuthHandler_init E w =
    (if isfile E (hgrcpath E) then
       (case read_config E (hgrcpath E) of
          Inl e \<Rightarrow> (Inl e, w)
        | Inr hgrc \<Rightarrow>
          (case (if has_option hgrc ''krb'' ''keytab''
                 then (case config_get hgrc ''krb'' ''keytab'' of
                         Inl e \<Rightarrow> Inl e | Inr v \<Rightarrow> Inr (Some (expanduser E v)))
                 else Inr None) of
             Inl e \<Rightarrow> (Inl e, w)
           | Inr keytab \<Rightarrow>
             (case (if has_option hgrc ''krb'' ''principal''
                    then (case config_get hgrc ''krb'' ''principal'' of
                            Inl e \<Rightarrow> Inl e | Inr v \<Rightarrow> Inr (Some v))
                    else Inr None) of
                Inl e \<Rightarrow> (Inl e, w)
              | Inr principal' \<Rightarrow>
                (case (keytab, principal') of
                   (Some kt, Some pr) \<Rightarrow>
                     if kt \<noteq> [] \<and> isfile E kt \<and> pr \<noteq> [] then
                       (let cc = krb5ccname E;
                            w1 = w\<lparr>environ := (environ w)(''KRB5CCNAME'' \<mapsto> cc)\<rparr>;
                            w2 = emit (Run (klist_argv cc)) w1
                        in case subprocess_run E w1 (klist_argv cc) of
                             Inl e \<Rightarrow> (Inl e, w2)
                           | Inr klist_returncode \<Rightarrow>
                               if klist_returncode \<noteq> 0 then
                                 (let w3 = emit (Print ''No valid kerberos ticket found, trying keytab'') w2;
                                      w4 = emit (Run (kinit_argv cc kt pr)) w3
                                  in case subprocess_run E w3 (kinit_argv cc kt pr) of
                                       Inl e \<Rightarrow> (Inl e, w4)
                                     | Inr kinit_returncode \<Rightarrow>
                                         if kinit_returncode = 0
                                         then (Inr (), emit (Print ''Succesfully obtained Kerberos ticket from keytab'') w4)
                                         else (Inr (), w4))
                               else (Inr (), w2))
                     else (Inr (), w)
                 | _ \<Rightarrow> (Inr (), w)))))
     else (Inr (), w))"

section \<open>The two 401 handlers\<close>

text \<open>
  Both handlers start from the challenge: the \<^verbatim>\<open>WWW-Authenticate\<close> value cut at commas,
  each piece stripped. The parameters \<^verbatim>\<open>fp\<close>, \<^verbatim>\<open>code\<close> and \<^verbatim>\<open>msg\<close> are not used by the
  code and are left out. A handler returns a response, \<^verbatim>\<open>None\<close> (not handled), or raises;
  the request it was given is returned as the handler leaves it.
\<close>

definition supported_schemes :: "env \<Rightarrow> (string \<rightharpoonup> string) \<Rightarrow> string list" where
  "supported_schemes E hdrs =
     map (str_strip (py_major E)) (str_split CHR '','' (dict_get hdrs ''WWW-Authenticate'' []))"

subsection \<open>Windows: SSPIAuthHandler\<close>

text \<open>The body of the \<^verbatim>\<open>try\<close> block.\<close>

definition sspi_try :: "env \<Rightarrow> request \<Rightarrow> world \<Rightarrow> (pyexn + response) \<times> request \<times> world" where
  "sspi_try E req w =
    (case py_index (str_split CHR '':'' (host req)) 0 of
       Inl e \<Rightarrow> (Inl e, req, w)
     | Inr h \<Rightarrow>
       (let w1 = emit (Call_gethostbyname_ex h) w
        in case gethostbyname_ex E h of
             Inl e \<Rightarrow> (Inl e, req, w1)
           | Inr name \<Rightarrow>
             (case environ w1 ''USERDNSDOMAIN'' of
                None \<Rightarrow> (Inl (KeyError ''USERDNSDOMAIN''), req, w1)
              | Some domain \<Rightarrow>
                (let targetspn = ''HTTP/'' @ name @ ''@'' @ domain;
                     w2 = emit (Call_ClientAuth ''Kerberos'' targetspn) w1
                 in case ClientAuth E ''Kerberos'' targetspn of
                      Inl e \<Rightarrow> (Inl e, req, w2)
                    | Inr ca \<Rightarrow>
                      (let w3 = emit (Call_authorize ca) w2
                       in case authorize E ca of
                            Inl e \<Rightarrow> (Inl e, req, w3)
                          | Inr data \<Rightarrow>
                            (let auth = remove_newlines (encodebytes data);
                                 req1 = add_header req ''Authorization'' (''Negotiate'' @ '' '' @ auth);
                                 w4 = emit (Call_open req1) w3
                             in case parent_open E req1 of
                                  Inl e \<Rightarrow> (Inl e, req1, w4)
                                | Inr resp \<Rightarrow> (Inr resp, req1, w4)))))))"

definition SSPIAuthHandler_http_error_401 ::
  "env \<Rightarrow> request \<Rightarrow> (string \<rightharpoonup> string) \<Rightarrow> world \<Rightarrow> (pyexn + response option) \<times> request \<times> world" where
  "SSPIAuthHandler_http_error_401 E req hdrs w =
    (if ''Negotiate'' \<notin> set (supported_schemes E hdrs) then
       (Inr None, req, emit (Print ''Server does not support Kerberos authentication'') w)
     else
       (case sspi_try E req w of
          (Inr resp, req', w') \<Rightarrow> (Inr (Some resp), req', w')
        | (Inl e, req', w') \<Rightarrow>
            if is_Exception e then
              (let w'' = emit (Print (''Kerberos error: '' @ str_exn e)) w'
               in if py_major E = 3 then (Inl (SystemExit 1), req', w'')
                  else (Inr None, req', w''))
            else (Inl e, req', w')))"

subsection \<open>Linux and macOS: KerberosAuthHandler\<close>

definition KerberosAuthHandler_http_error_401 ::
  "env \<Rightarrow> request \<Rightarrow> (string \<rightharpoonup> string) \<Rightarrow> world \<Rightarrow> (pyexn + response option) \<times> request \<times> world" where
  "KerberosAuthHandler_http_error_401 E req hdrs w =
    (if ''Negotiate'' \<notin> set (supported_schemes E hdrs) then
       (Inr None, req, emit (Print ''Server does not support Kerberos authentication'') w)
     else
       (let r = (if py_major E < 3 then get_host req else host req)
        in case py_index (str_split CHR '':'' r) 0 of
             Inl e \<Rightarrow> (Inl e, req, w)
           | Inr h \<Rightarrow>
             (let w1 = emit (Call_authGSSClientInit (''HTTP@'' @ h)) w
              in case authGSSClientInit E (''HTTP@'' @ h) of
                   Inl e \<Rightarrow> (Inl e, req, w1)
                 | Inr (init_result, context) \<Rightarrow>
                   (case py_index (supported_schemes E hdrs) 0 of
                      Inl e \<Rightarrow> (Inl e, req, w1)
                    | Inr challenge \<Rightarrow>
                      (let w2 = emit (Call_authGSSClientStep context challenge) w1
                       in case authGSSClientStep E context challenge of
                            Inl e \<Rightarrow>
                              if is_GSSError e then
                                (let w3 = emit (Print (''Kerberos GSS Error: '' @ str_exn e)) w2
                                 in if py_major E = 3 then (Inl (SystemExit 1), req, w3)
                                    else (Inr None, req, w3))
                              else (Inl e, req, w2)
                          | Inr (step_result, context1) \<Rightarrow>
                            (let w3 = emit (Call_authGSSClientResponse context1) w2
                             in case authGSSClientResponse E context1 of
                                  Inl e \<Rightarrow> (Inl e, req, w3)
                                | Inr response \<Rightarrow>
                                  (let req1 = add_unredirected_header req ''Authorization''
                                                (''Negotiate '' @ str_opt response);
                                       w4 = emit (Call_open req1) w3
                                   in case parent_open E req1 of
                                        Inl e \<Rightarrow> (Inl e, req1, w4)
                                      | Inr resp \<Rightarrow>
                                        (case py_index (str_split CHR '','' (dict_get (info resp) ''WWW-Authenticate'' [])) 0 of
                                           Inl e \<Rightarrow> (Inl e, req1, w4)
                                         | Inr segment \<Rightarrow>
                                           (case py_index (str_split_ws (py_major E) segment) 1 of
                                              Inl e \<Rightarrow> (Inl e, req1, w4)
                                            | Inr server_token \<Rightarrow>
                                              (let w5 = emit (Call_authGSSClientStep context1 server_token) w4
                                               in case authGSSClientStep E context1 server_token of
                                                    Inl e \<Rightarrow> (Inl e, req1, w5)
                                                  | Inr (server_auth_result, context2) \<Rightarrow>
                                                      if server_auth_result < 1 then
                                                        (Inl (Exception (''Server authentication error: '' @ str_int server_auth_result)), req1, w5)
                                                      else (Inr (Some resp), req1, w5)))))))))))"

section \<open>Reading a trace\<close>

text \<open>The events a call added to the trace.\<close>

definition new_events :: "world \<Rightarrow> world \<Rightarrow> event list" where
  "new_events w w' = drop (length (trace w)) (trace w')"

fun is_kinit :: "event \<Rightarrow> bool" where
  "is_kinit (Run argv) = (take 1 argv = [''/usr/bin/kinit''])"
| "is_kinit _ = False"

fun is_open :: "event \<Rightarrow> bool" where
  "is_open (Call_open _) = True"
| "is_open _ = False"

fun is_print :: "event \<Rightarrow> bool" where
  "is_print (Print _) = True"
| "is_print _ = False"

section \<open>Concrete inputs\<close>

text \<open>
  A user whose \<^verbatim>\<open>~/.hgrc\<close> names a keytab and a principal, on a machine where \<^verbatim>\<open>klist\<close>
  finds a valid ticket once \<^verbatim>\<open>kinit\<close> has run, talking to a server that answers the
  resubmitted request with \<^verbatim>\<open>200\<close> and a final token.
\<close>

definition cfg_keytab :: config where
  "cfg_keytab =
     (\<lambda>k. if k = (''krb'', ''keytab'') then Some (Inr ''~/hg.keytab'')
          else if k = (''krb'', ''principal'') then Some (Inr ''hg@EXAMPLE.ORG'')
          else None)"

definition resp_with :: "string option \<Rightarrow> response" where
  "resp_with v = \<lparr>status = 200, info = (\<lambda>k. if k = ''WWW-Authenticate'' then v else None)\<rparr>"

definition env_demo :: env where
  "env_demo =
     \<lparr>py_major = 3,
      expanduser = (\<lambda>p. if take 1 p = ''~'' then ''/home/hg'' @ drop 1 p else p),
      isfile = (\<lambda>p. p = ''/home/hg/.hgrc'' \<or> p = ''/home/hg/hg.keytab''),
      geteuid = 1000,
      read_config = (\<lambda>p. Inr cfg_keytab),
      subprocess_run =
        (\<lambda>w argv. Inr (if take 1 argv = [''/usr/bin/klist'']
                        then (if filter is_kinit (trace w) = [] then 1 else 0)
                        else 0)),
      gethostbyname_ex = (\<lambda>h. Inr h),
      ClientAuth = (\<lambda>pkg spn. Inr 7),
      authorize = (\<lambda>ca. Inr [1, 2, 3]),
      authGSSClientInit = (\<lambda>service. Inr (1, 0)),
      authGSSClientStep =
        (\<lambda>c tok. Inr (if tok = ''Negotiate'' then 0 else if tok = ''GOODTOKEN'' then 1 else -1, Suc c)),
      authGSSClientResponse = (\<lambda>c. Inr (Some ''YIIClientToken'')),
      parent_open = (\<lambda>r. Inr (resp_with (Some ''Negotiate GOODTOKEN'')))\<rparr>"

definition req_demo :: request where
  "req_demo = \<lparr>host = ''hg.example.org:8443'', headers = Map.empty, unredirected_hdrs = Map.empty\<rparr>"

definition hdrs_negotiate :: "string \<rightharpoonup> string" where
  "hdrs_negotiate = (\<lambda>k. if k = ''WWW-Authenticate'' then Some ''Negotiate, Basic realm=hg'' else None)"

definition hdrs_basic :: "string \<rightharpoonup> string" where
  "hdrs_basic = (\<lambda>k. if k = ''WWW-Authenticate'' then Some ''Basic realm=hg'' else None)"

definition world_demo :: world where
  "world_demo = \<lparr>trace = [], environ = (\<lambda>k. if k = ''USERDNSDOMAIN'' then Some ''EXAMPLE.ORG'' else None)\<rparr>"

text \<open>The same user against a server whose final token the library rejects, a server that
  sends no final token, a library that fails the first step, and a Python 2 host whose
  SSPI call fails.\<close>

definition env_mismatch :: env where
  "env_mismatch = env_demo\<lparr>parent_open := (\<lambda>r. Inr (resp_with (Some ''Negotiate BADTOKEN'')))\<rparr>"

definition env_no_token :: env where
  "env_no_token = env_demo\<lparr>parent_open := (\<lambda>r. Inr (resp_with None))\<rparr>"



text \<open>Variations on the provisioner's surroundings: no keytab configured, the keytab file
  missing, a configuration file the parser rejects, no \<^verbatim>\<open>klist\<close> executable, and a
  \<^verbatim>\<open>kinit\<close> that fails. \<open>world_cache\<close> is the first world with the cache variable set.\<close>

definition cfg_no_keytab :: config where
  "cfg_no_keytab = (\<lambda>k. if k = (''krb'', ''principal'') then Some (Inr ''hg@EXAMPLE.ORG'') else None)"

definition env_no_keytab :: env where
  "env_no_keytab = env_demo\<lparr>read_config := (\<lambda>p. Inr cfg_no_keytab)\<rparr>"

definition env_keytab_gone :: env where
  "env_keytab_gone = env_demo\<lparr>isfile := (\<lambda>p. p = ''/home/hg/.hgrc'')\<rparr>"

definition env_bad_hgrc :: env where
  "env_bad_hgrc = env_demo\<lparr>read_config := (\<lambda>p. Inl (ConfigParserError ''File contains no section headers.''))\<rparr>"

definition env_no_klist :: env where
  "env_no_klist = env_demo\<lparr>subprocess_run := (\<lambda>w argv. Inl (OSError ''No such file or directory''))\<rparr>"

definition env_kinit_fails :: env where
  "env_kinit_fails = env_demo\<lparr>subprocess_run := (\<lambda>w argv. Inr 1)\<rparr>"

definition world_cache :: world where
  "world_cache = world_demo\<lparr>environ := (environ world_demo)(''KRB5CCNAME'' \<mapsto> ''/tmp/krb5cc_1000'')\<rparr>"

section \<open>Properties\<close>

subsection \<open>Strings and base64\<close>

lemma split_when_nonempty: "split_when P s \<noteq> []"
  by (induction s) (auto simp: Let_def)

lemma py_index_split_0: "py_index (str_split c s) 0 = Inr (hd (str_split c s))"
  using split_when_nonempty [of "\<lambda>x. x = c" s]
  by (cases "str_split c s") (simp_all add: py_index_def str_split_def)

lemma split_ws_empty: "str_split_ws major [] = []"
  by (simp add: str_split_ws_def)

lemma b64_alphabet_length: "length b64_alphabet = 64"
  by (simp add: b64_alphabet_def)

lemma newline_not_in_alphabet: "CHR 0x0A \<notin> set b64_alphabet"
  by (simp add: b64_alphabet_def)

lemma b64_char_not_newline: "n < 64 \<Longrightarrow> b64_char n \<noteq> CHR 0x0A"
  unfolding b64_char_def
  using newline_not_in_alphabet nth_mem [of n b64_alphabet] b64_alphabet_length
  by metis

lemma unat_byte_lt: "unat (a :: byte) < 256"
  using unsigned_less [of a, where 'a = nat] by simp

lemma b64_groups_no_newline: "CHR 0x0A \<notin> set (b64_groups s)"
proof (induction s rule: b64_groups.induct)
  case 1
  then show ?case by simp
next
  case (2 a)
  have "unat a div 4 < 64" "unat a mod 4 * 16 < 64"
    using unat_byte_lt [of a] by arith+
  then show ?case by (simp add: b64_char_not_newline [THEN not_sym])
next
  case (3 a b)
  have "unat a div 4 < 64" "unat a mod 4 * 16 + unat b div 16 < 64" "unat b mod 16 * 4 < 64"
    using unat_byte_lt [of a] unat_byte_lt [of b] by arith+
  then show ?case by (simp add: b64_char_not_newline [THEN not_sym])
next
  case (4 a b c rest)
  have "unat a div 4 < 64" "unat a mod 4 * 16 + unat b div 16 < 64"
    "unat b mod 16 * 4 + unat c div 64 < 64" "unat c mod 64 < 64"
    using unat_byte_lt [of a] unat_byte_lt [of b] unat_byte_lt [of c] by arith+
  with 4 show ?case by (simp add: b64_char_not_newline [THEN not_sym])
qed

lemma b64_groups_append:
  "3 dvd length xs \<Longrightarrow> b64_groups (xs @ ys) = b64_groups xs @ b64_groups ys"
proof (induction xs rule: b64_groups.induct)
  case 1
  then show ?case by simp
next
  case (2 a)
  then show ?case by simp
next
  case (3 a b)
  then have "(3::nat) dvd 2" by (simp add: numeral_2_eq_2)
  then show ?case by simp
next
  case (4 a b c rest)
  from 4(2) have "3 dvd length rest + 3" by (simp add: numeral_3_eq_3)
  then have "3 dvd length rest" by simp
  with 4(1) show ?case by simp
qed

lemma remove_newlines_append:
  "remove_newlines (s @ t) = remove_newlines s @ remove_newlines t"
  by (simp add: remove_newlines_def)

lemma remove_newlines_b2a_base64: "remove_newlines (b2a_base64 c) = b64_groups c"
  using b64_groups_no_newline [of c]
  by (auto simp: remove_newlines_def b2a_base64_def filter_id_conv)

lemma remove_newlines_chunks:
  "0 < n \<Longrightarrow> 3 dvd n \<Longrightarrow>
   remove_newlines (concat (map b2a_base64 (chunks n s))) = b64_groups s"
proof (induction n s rule: chunks.induct)
  case (1 n xs)
  show ?case
  proof (cases "xs = []")
    case True
    then show ?thesis by (simp add: remove_newlines_def chunks.simps)
  next
    case False
    with 1 have IH: "remove_newlines (concat (map b2a_base64 (chunks n (drop n xs)))) = b64_groups (drop n xs)"
      by simp
    have step: "chunks n xs = take n xs # chunks n (drop n xs)"
      using False 1(2) by (subst chunks.simps) simp
    have join: "b64_groups (take n xs) @ b64_groups (drop n xs) = b64_groups xs"
    proof (cases "n \<le> length xs")
      case True
      then have "3 dvd length (take n xs)" using 1(3) by (simp add: min_def)
      then show ?thesis using b64_groups_append [of "take n xs" "drop n xs"] by simp
    next
      case False
      then show ?thesis by simp
    qed
    show ?thesis
      using IH join
      by (simp add: step remove_newlines_append remove_newlines_b2a_base64)
  qed
qed

lemma encodebytes_is_base64: "remove_newlines (encodebytes s) = rfc4648_base64 s"
  unfolding encodebytes_def rfc4648_base64_def
  by (rule remove_newlines_chunks) (simp_all add: MAXBINSIZE_def)

subsection \<open>A challenge without Negotiate\<close>

text \<open>
  C2. When the challenge, cut at commas and stripped, does not contain \<^verbatim>\<open>Negotiate\<close>, either
  handler answers \<^verbatim>\<open>None\<close>, leaves the request as it was, and does nothing to the world
  but print one line: no call into a security library, no resubmission, no change of the
  environment.
\<close>

theorem no_negotiate_not_handled:
  assumes "''Negotiate'' \<notin> set (supported_schemes E hdrs)"
  shows "SSPIAuthHandler_http_error_401 E req hdrs w =
           (Inr None, req, emit (Print ''Server does not support Kerberos authentication'') w)
       \<and> KerberosAuthHandler_http_error_401 E req hdrs w =
           (Inr None, req, emit (Print ''Server does not support Kerberos authentication'') w)"
  using assms
  by (simp add: SSPIAuthHandler_http_error_401_def KerberosAuthHandler_http_error_401_def)

theorem no_negotiate_not_handled_witness:
  "''Negotiate'' \<notin> set (supported_schemes env_demo hdrs_basic)
   \<and> SSPIAuthHandler_http_error_401 env_demo req_demo hdrs_basic world_demo =
       (Inr None, req_demo, emit (Print ''Server does not support Kerberos authentication'') world_demo)
   \<and> KerberosAuthHandler_http_error_401 env_demo req_demo hdrs_basic world_demo =
       (Inr None, req_demo, emit (Print ''Server does not support Kerberos authentication'') world_demo)"
proof -
  have basic: "supported_schemes env_demo hdrs_basic = [''Basic realm=hg'']"
    by (simp add: supported_schemes_def env_demo_def hdrs_basic_def dict_get_def str_split_def
        str_strip_def isspace_def py3_isspace_def)
  then have no: "''Negotiate'' \<notin> set (supported_schemes env_demo hdrs_basic)"
    by simp
  show ?thesis
    using no no_negotiate_not_handled [OF no, of req_demo world_demo] by simp
qed

subsection \<open>Facts about the handlers' first steps and the concrete inputs\<close>

lemma supported_schemes_nonempty: "supported_schemes E hdrs \<noteq> []"
  by (simp add: supported_schemes_def str_split_def split_when_nonempty)

lemma py_index_schemes_0:
  "py_index (supported_schemes E hdrs) 0 = Inr (hd (supported_schemes E hdrs))"
  using supported_schemes_nonempty [of E hdrs]
  by (cases "supported_schemes E hdrs") (simp_all add: py_index_def)

lemma request_host: "(if py_major E < 3 then get_host req else host req) = host req"
  by (simp add: get_host_def)

lemma py_index_1_short: "length xs < 2 \<Longrightarrow> py_index xs 1 = Inl (IndexError ''list index out of range'')"
  by (simp add: py_index_def)

lemma schemes_negotiate:
  "supported_schemes E hdrs_negotiate = [''Negotiate'', ''Basic realm=hg'']"
  by (simp add: supported_schemes_def hdrs_negotiate_def dict_get_def str_split_def
      str_strip_def isspace_def py3_isspace_def py2_isspace_def)

lemma host_demo: "hd (str_split CHR '':'' (host req_demo)) = ''hg.example.org''"
  by (simp add: req_demo_def str_split_def)

subsection \<open>Mutual authentication on the Kerberos handler\<close>

text \<open>
  C3. On the Kerberos handler, when the handshake has gone through, the request has been
  resubmitted and answered, and the step on the server's token returns a result below 1,
  the handler raises \<^verbatim>\<open>Exception("Server authentication error: <result>")\<close>; the
  answer to the resubmission is not returned, whatever its status.
\<close>

theorem server_auth_mismatch_raises:
  assumes neg: "''Negotiate'' \<in> set (supported_schemes E hdrs)"
    and init: "authGSSClientInit E (''HTTP@'' @ hd (str_split CHR '':'' (host req))) = Inr (init_result, ctx)"
    and step: "authGSSClientStep E ctx (hd (supported_schemes E hdrs)) = Inr (step_result, ctx1)"
    and resp: "authGSSClientResponse E ctx1 = Inr response"
    and sent: "parent_open E (add_unredirected_header req ''Authorization'' (''Negotiate '' @ str_opt response)) = Inr resp"
    and tok: "py_index (str_split_ws (py_major E)
                (hd (str_split CHR '','' (dict_get (info resp) ''WWW-Authenticate'' [])))) 1 = Inr server_token"
    and verify: "authGSSClientStep E ctx1 server_token = Inr (server_auth_result, ctx2)"
    and bad: "server_auth_result < 1"
  shows "fst (KerberosAuthHandler_http_error_401 E req hdrs w) =
           Inl (Exception (''Server authentication error: '' @ str_int server_auth_result))"
  using assms
  by (simp add: KerberosAuthHandler_http_error_401_def request_host py_index_split_0
      py_index_schemes_0 Let_def)

theorem server_auth_mismatch_raises_witness:
  "status (resp_with (Some ''Negotiate BADTOKEN'')) = 200
   \<and> fst (KerberosAuthHandler_http_error_401 env_mismatch req_demo hdrs_negotiate world_demo) =
       Inl (Exception ''Server authentication error: -1'')"
proof -
  have neg: "''Negotiate'' \<in> set (supported_schemes env_mismatch hdrs_negotiate)"
    by (simp add: schemes_negotiate)
  have init: "authGSSClientInit env_mismatch (''HTTP@'' @ hd (str_split CHR '':'' (host req_demo))) = Inr (1, 0)"
    by (simp add: env_mismatch_def env_demo_def)
  have step: "authGSSClientStep env_mismatch 0 (hd (supported_schemes env_mismatch hdrs_negotiate)) = Inr (0, 1)"
    by (simp add: schemes_negotiate) (simp add: env_mismatch_def env_demo_def)
  have resp: "authGSSClientResponse env_mismatch 1 = Inr (Some ''YIIClientToken'')"
    by (simp add: env_mismatch_def env_demo_def)
  have sent: "parent_open env_mismatch (add_unredirected_header req_demo ''Authorization''
      (''Negotiate '' @ str_opt (Some ''YIIClientToken''))) = Inr (resp_with (Some ''Negotiate BADTOKEN''))"
    by (simp add: env_mismatch_def env_demo_def)
  have tok: "py_index (str_split_ws (py_major env_mismatch)
      (hd (str_split CHR '','' (dict_get (info (resp_with (Some ''Negotiate BADTOKEN''))) ''WWW-Authenticate'' [])))) 1
      = Inr ''BADTOKEN''"
    by (simp add: env_mismatch_def env_demo_def resp_with_def dict_get_def str_split_def
        str_split_ws_def py_index_def isspace_def py3_isspace_def)
  have verify: "authGSSClientStep env_mismatch 1 ''BADTOKEN'' = Inr (-1, 2)"
    by (simp add: env_mismatch_def env_demo_def)
  have shown: "str_int (-1) = ''-1''"
    by (simp add: str_int_def str_nat.simps digit_char_def)
  show ?thesis
    using server_auth_mismatch_raises [OF neg init step resp sent tok verify, of world_demo]
    by (simp add: shown resp_with_def)
qed

text \<open>
  C10. On the Kerberos handler, when the answer to the resubmission has no
  \<^verbatim>\<open>WWW-Authenticate\<close> header, an empty one, or one whose first comma-separated piece has
  fewer than two whitespace-separated fields, taking the server token raises
  \<^verbatim>\<open>IndexError\<close>, which nothing catches; the resubmission is the last thing the handler
  did, so no verification step ran.
\<close>

theorem missing_server_token_index_error:
  assumes neg: "''Negotiate'' \<in> set (supported_schemes E hdrs)"
    and init: "authGSSClientInit E (''HTTP@'' @ hd (str_split CHR '':'' (host req))) = Inr (init_result, ctx)"
    and step: "authGSSClientStep E ctx (hd (supported_schemes E hdrs)) = Inr (step_result, ctx1)"
    and resp: "authGSSClientResponse E ctx1 = Inr response"
    and sent: "parent_open E (add_unredirected_header req ''Authorization'' (''Negotiate '' @ str_opt response)) = Inr resp"
    and short: "info resp ''WWW-Authenticate'' = None \<or> info resp ''WWW-Authenticate'' = Some []
              \<or> length (str_split_ws (py_major E)
                   (hd (str_split CHR '','' (dict_get (info resp) ''WWW-Authenticate'' [])))) < 2"
  shows "fst (KerberosAuthHandler_http_error_401 E req hdrs w) = Inl (IndexError ''list index out of range'')
       \<and> last (trace (snd (snd (KerberosAuthHandler_http_error_401 E req hdrs w)))) =
           Call_open (add_unredirected_header req ''Authorization'' (''Negotiate '' @ str_opt response))"
proof -
  have "length (str_split_ws (py_major E)
          (hd (str_split CHR '','' (dict_get (info resp) ''WWW-Authenticate'' [])))) < 2"
    using short by (auto simp: dict_get_def str_split_def split_ws_empty)
  then have "py_index (str_split_ws (py_major E)
          (hd (str_split CHR '','' (dict_get (info resp) ''WWW-Authenticate'' [])))) 1 =
          Inl (IndexError ''list index out of range'')"
    by (rule py_index_1_short)
  then show ?thesis
    using neg init step resp sent
    by (simp add: KerberosAuthHandler_http_error_401_def request_host py_index_split_0
        py_index_schemes_0 Let_def emit_def)
qed

theorem missing_server_token_index_error_witness:
  "info (resp_with None) ''WWW-Authenticate'' = None
   \<and> fst (KerberosAuthHandler_http_error_401 env_no_token req_demo hdrs_negotiate world_demo) =
       Inl (IndexError ''list index out of range'')"
proof -
  have neg: "''Negotiate'' \<in> set (supported_schemes env_no_token hdrs_negotiate)"
    by (simp add: schemes_negotiate)
  have init: "authGSSClientInit env_no_token (''HTTP@'' @ hd (str_split CHR '':'' (host req_demo))) = Inr (1, 0)"
    by (simp add: env_no_token_def env_demo_def)
  have step: "authGSSClientStep env_no_token 0 (hd (supported_schemes env_no_token hdrs_negotiate)) = Inr (0, 1)"
    by (simp add: schemes_negotiate) (simp add: env_no_token_def env_demo_def)
  have resp: "authGSSClientResponse env_no_token 1 = Inr (Some ''YIIClientToken'')"
    by (simp add: env_no_token_def env_demo_def)
  have sent: "parent_open env_no_token (add_unredirected_header req_demo ''Authorization''
      (''Negotiate '' @ str_opt (Some ''YIIClientToken''))) = Inr (resp_with None)"
    by (simp add: env_no_token_def env_demo_def)
  have absent: "info (resp_with None) ''WWW-Authenticate'' = None"
    by (simp add: resp_with_def)
  then have short: "info (resp_with None) ''WWW-Authenticate'' = None
      \<or> info (resp_with None) ''WWW-Authenticate'' = Some []
      \<or> length (str_split_ws (py_major env_no_token)
           (hd (str_split CHR '','' (dict_get (info (resp_with None)) ''WWW-Authenticate'' [])))) < 2"
    by simp
  show ?thesis
    using absent missing_server_token_index_error [OF neg init step resp sent short, of world_demo]
    by simp
qed

subsection \<open>A failing handshake step\<close>



subsection \<open>What a returned response has been through\<close>









subsection \<open>The token sent by the SSPI handler\<close>

text \<open>
  C9. On the SSPI handler, when name resolution, the domain lookup, \<^verbatim>\<open>ClientAuth\<close> and
  \<^verbatim>\<open>authorize\<close> succeed and yield the token \<open>data\<close>, the handler hands the request
  to the host client exactly once, and that request carries
  \<^verbatim>\<open>Authorization: Negotiate <base64 of data>\<close>, the RFC 4648 encoding with no newline in
  it.
\<close>

theorem sspi_one_resubmission_with_base64_token:
  assumes neg: "''Negotiate'' \<in> set (supported_schemes E hdrs)"
    and dns: "gethostbyname_ex E (hd (str_split CHR '':'' (host req))) = Inr name"
    and dom: "environ w ''USERDNSDOMAIN'' = Some domain"
    and ctx: "ClientAuth E ''Kerberos'' (''HTTP/'' @ name @ ''@'' @ domain) = Inr ca"
    and tok: "authorize E ca = Inr data"
    and run: "SSPIAuthHandler_http_error_401 E req hdrs w = (res, req', w')"
  shows "filter is_open (new_events w w') = [Call_open req']
       \<and> headers req' ''Authorization'' = Some (''Negotiate '' @ rfc4648_base64 data)
       \<and> CHR 0x0A \<notin> set (rfc4648_base64 data)"
proof -
  let ?req1 = "add_header req ''Authorization'' (''Negotiate '' @ rfc4648_base64 data)"
  have body: "sspi_try E req w =
      (case parent_open E ?req1 of Inl e \<Rightarrow> Inl e | Inr resp \<Rightarrow> Inr resp, ?req1,
       emit (Call_open ?req1) (emit (Call_authorize ca)
         (emit (Call_ClientAuth ''Kerberos'' (''HTTP/'' @ name @ ''@'' @ domain))
           (emit (Call_gethostbyname_ex (hd (str_split CHR '':'' (host req)))) w))))"
    using dns dom ctx tok
    by (simp add: sspi_try_def py_index_split_0 Let_def emit_def encodebytes_is_base64
        split: sum.splits)
  have "req' = ?req1 \<and> filter is_open (new_events w w') = [Call_open ?req1]"
    using run neg
    by (auto simp: SSPIAuthHandler_http_error_401_def body new_events_def emit_def Let_def
        split: sum.splits if_splits)
  moreover have "headers ?req1 ''Authorization'' = Some (''Negotiate '' @ rfc4648_base64 data)"
    by (simp add: add_header_def)
  moreover have "CHR 0x0A \<notin> set (rfc4648_base64 data)"
    by (simp add: rfc4648_base64_def b64_groups_no_newline)
  ultimately show ?thesis by simp
qed

theorem sspi_one_resubmission_with_base64_token_witness:
  "filter is_open (new_events world_demo
     (snd (snd (SSPIAuthHandler_http_error_401 env_demo req_demo hdrs_negotiate world_demo)))) =
     [Call_open (fst (snd (SSPIAuthHandler_http_error_401 env_demo req_demo hdrs_negotiate world_demo)))]
   \<and> headers (fst (snd (SSPIAuthHandler_http_error_401 env_demo req_demo hdrs_negotiate world_demo)))
       ''Authorization'' = Some ''Negotiate AQID''"
proof -
  have neg: "''Negotiate'' \<in> set (supported_schemes env_demo hdrs_negotiate)"
    by (simp add: schemes_negotiate)
  have dns: "gethostbyname_ex env_demo (hd (str_split CHR '':'' (host req_demo))) = Inr ''hg.example.org''"
    by (simp add: host_demo env_demo_def)
  have dom: "environ world_demo ''USERDNSDOMAIN'' = Some ''EXAMPLE.ORG''"
    by (simp add: world_demo_def)
  have ctx: "ClientAuth env_demo ''Kerberos'' (''HTTP/'' @ ''hg.example.org'' @ ''@'' @ ''EXAMPLE.ORG'') = Inr 7"
    by (simp add: env_demo_def)
  have tok: "authorize env_demo 7 = Inr [1, 2, 3]"
    by (simp add: env_demo_def)
  have b64: "rfc4648_base64 [1, 2, 3] = ''AQID''"
    by (simp add: rfc4648_base64_def b64_char_def b64_alphabet_def)
  show ?thesis
    using sspi_one_resubmission_with_base64_token [OF neg dns dom ctx tok surjective_pairing [THEN trans, OF arg_cong [where f = "Pair _", OF surjective_pairing]]]
    by (simp add: b64)
qed

subsection \<open>The ticket provisioner\<close>

lemma krb5ccname_demo: "geteuid E = 1000 \<Longrightarrow> krb5ccname E = ''/tmp/krb5cc_1000''"
  by (simp add: krb5ccname_def str_nat.simps digit_char_def)

lemma hgrcpath_demo: "expanduser E = expanduser env_demo \<Longrightarrow> hgrcpath E = ''/home/hg/.hgrc''"
  by (simp add: hgrcpath_def env_demo_def)

lemma init_demo:
  "KerberosAuthHandler_init env_demo world_demo =
     (Inr (),
      emit (Print ''Succesfully obtained Kerberos ticket from keytab'')
        (emit (Run (kinit_argv ''/tmp/krb5cc_1000'' ''/home/hg/hg.keytab'' ''hg@EXAMPLE.ORG''))
          (emit (Print ''No valid kerberos ticket found, trying keytab'')
            (emit (Run (klist_argv ''/tmp/krb5cc_1000'')) world_cache))))"
proof -
  have cc: "krb5ccname env_demo = ''/tmp/krb5cc_1000''"
    by (rule krb5ccname_demo) (simp add: env_demo_def)
  have rc: "hgrcpath env_demo = ''/home/hg/.hgrc''"
    by (rule hgrcpath_demo) simp
  show ?thesis
    unfolding KerberosAuthHandler_init_def cc rc
    by (simp add: env_demo_def cfg_keytab_def has_option_def config_get_def world_cache_def
        world_demo_def emit_def klist_argv_def kinit_argv_def Let_def)
qed

lemma init_kinit_fails:
  "KerberosAuthHandler_init env_kinit_fails world_demo =
     (Inr (),
      emit (Run (kinit_argv ''/tmp/krb5cc_1000'' ''/home/hg/hg.keytab'' ''hg@EXAMPLE.ORG''))
        (emit (Print ''No valid kerberos ticket found, trying keytab'')
          (emit (Run (klist_argv ''/tmp/krb5cc_1000'')) world_cache)))"
proof -
  have cc: "krb5ccname env_kinit_fails = ''/tmp/krb5cc_1000''"
    by (rule krb5ccname_demo) (simp add: env_kinit_fails_def env_demo_def)
  have rc: "hgrcpath env_kinit_fails = ''/home/hg/.hgrc''"
    by (rule hgrcpath_demo) (simp add: env_kinit_fails_def)
  show ?thesis
    unfolding KerberosAuthHandler_init_def cc rc
    by (simp add: env_kinit_fails_def env_demo_def cfg_keytab_def has_option_def config_get_def
        world_cache_def world_demo_def emit_def klist_argv_def kinit_argv_def Let_def)
qed

text \<open>What the constructor does when the ticket has expired, for every outcome of
  \<^verbatim>\<open>kinit\<close>: the argument vector is the cache, the expanded keytab path and the
  principal.\<close>

lemma expired_ticket_runs_kinit:
  assumes "isfile E (hgrcpath E)"
    and "read_config E (hgrcpath E) = Inr cfg"
    and "cfg (''krb'', ''keytab'') = Some (Inr kt)"
    and "cfg (''krb'', ''principal'') = Some (Inr pr)"
    and "expanduser E kt \<noteq> []" and "isfile E (expanduser E kt)" and "pr \<noteq> []"
    and "subprocess_run E (w\<lparr>environ := (environ w)(''KRB5CCNAME'' \<mapsto> krb5ccname E)\<rparr>)
           (klist_argv (krb5ccname E)) = Inr klist_returncode"
    and "klist_returncode \<noteq> 0"
    and "subprocess_run E
           (emit (Print ''No valid kerberos ticket found, trying keytab'')
             (emit (Run (klist_argv (krb5ccname E)))
               (w\<lparr>environ := (environ w)(''KRB5CCNAME'' \<mapsto> krb5ccname E)\<rparr>)))
           (kinit_argv (krb5ccname E) (expanduser E kt) pr) = Inr kinit_returncode"
  shows "new_events w (snd (KerberosAuthHandler_init E w)) =
           [Run (klist_argv (krb5ccname E)),
            Print ''No valid kerberos ticket found, trying keytab'',
            Run (kinit_argv (krb5ccname E) (expanduser E kt) pr)]
           @ (if kinit_returncode = 0 then [Print ''Succesfully obtained Kerberos ticket from keytab'']
              else [])"
  using assms
  by (simp add: KerberosAuthHandler_init_def has_option_def config_get_def new_events_def
      emit_def Let_def)

text \<open>
  C4. When \<^verbatim>\<open>~/.hgrc\<close> is missing, or it has no \<^verbatim>\<open>keytab\<close> option, or no
  \<^verbatim>\<open>principal\<close> option, or the keytab it names is not a file, the constructor leaves
  the world as it found it: the environment is unchanged (\<^verbatim>\<open>KRB5CCNAME\<close> included) and
  the trace gains nothing, so no child process is started.
\<close>

theorem no_keytab_no_effect:
  assumes "\<not> isfile E (hgrcpath E) \<or>
           (\<exists>cfg. read_config E (hgrcpath E) = Inr cfg \<and>
              (cfg (''krb'', ''keytab'') = None \<or> cfg (''krb'', ''principal'') = None \<or>
               (\<exists>kt. cfg (''krb'', ''keytab'') = Some (Inr kt) \<and> \<not> isfile E (expanduser E kt))))"
  shows "snd (KerberosAuthHandler_init E w) = w"
  using assms
  by (auto simp: KerberosAuthHandler_init_def has_option_def config_get_def
      split: sum.splits option.splits)

theorem no_keytab_no_effect_witness:
  "cfg_no_keytab (''krb'', ''keytab'') = None
   \<and> snd (KerberosAuthHandler_init env_no_keytab world_demo) = world_demo
   \<and> cfg_keytab (''krb'', ''keytab'') = Some (Inr ''~/hg.keytab'')
   \<and> isfile env_keytab_gone (expanduser env_keytab_gone ''~/hg.keytab'') = False
   \<and> snd (KerberosAuthHandler_init env_keytab_gone world_demo) = world_demo"
proof -
  have unset: "cfg_no_keytab (''krb'', ''keytab'') = None"
    by (simp add: cfg_no_keytab_def)
  have a: "\<not> isfile env_no_keytab (hgrcpath env_no_keytab) \<or>
           (\<exists>cfg. read_config env_no_keytab (hgrcpath env_no_keytab) = Inr cfg \<and>
              (cfg (''krb'', ''keytab'') = None \<or> cfg (''krb'', ''principal'') = None \<or>
               (\<exists>kt. cfg (''krb'', ''keytab'') = Some (Inr kt)
                   \<and> \<not> isfile env_no_keytab (expanduser env_no_keytab kt))))"
    using unset by (simp add: env_no_keytab_def env_demo_def)
  have set_kt: "cfg_keytab (''krb'', ''keytab'') = Some (Inr ''~/hg.keytab'')"
    by (simp add: cfg_keytab_def)
  have gone: "isfile env_keytab_gone (expanduser env_keytab_gone ''~/hg.keytab'') = False"
    by (simp add: env_keytab_gone_def env_demo_def)
  have b: "\<not> isfile env_keytab_gone (hgrcpath env_keytab_gone) \<or>
           (\<exists>cfg. read_config env_keytab_gone (hgrcpath env_keytab_gone) = Inr cfg \<and>
              (cfg (''krb'', ''keytab'') = None \<or> cfg (''krb'', ''principal'') = None \<or>
               (\<exists>kt. cfg (''krb'', ''keytab'') = Some (Inr kt)
                   \<and> \<not> isfile env_keytab_gone (expanduser env_keytab_gone kt))))"
    using set_kt gone by (simp add: env_keytab_gone_def env_demo_def)
  show ?thesis
    using unset set_kt gone no_keytab_no_effect [OF a, of world_demo]
      no_keytab_no_effect [OF b, of world_demo]
    by simp
qed

text \<open>
  C5. In a second call of the constructor, if \<^verbatim>\<open>klist -s\<close> on the cache exits with 0,
  the call starts no \<^verbatim>\<open>kinit\<close>.
\<close>

theorem valid_ticket_no_kinit:
  assumes first: "KerberosAuthHandler_init E w0 = (r1, w1)"
    and second: "KerberosAuthHandler_init E w1 = (r2, w2)"
    and valid: "subprocess_run E (w1\<lparr>environ := (environ w1)(''KRB5CCNAME'' \<mapsto> krb5ccname E)\<rparr>)
                  (klist_argv (krb5ccname E)) = Inr 0"
  shows "filter is_kinit (new_events w1 w2) = []"
  using second valid
  by (auto simp: KerberosAuthHandler_init_def new_events_def emit_def klist_argv_def Let_def
      split: sum.splits option.splits if_splits)

theorem valid_ticket_no_kinit_witness:
  "filter is_kinit (trace (snd (KerberosAuthHandler_init env_demo world_demo))) =
     [Run (kinit_argv ''/tmp/krb5cc_1000'' ''/home/hg/hg.keytab'' ''hg@EXAMPLE.ORG'')]
   \<and> filter is_kinit
       (new_events (snd (KerberosAuthHandler_init env_demo world_demo))
          (snd (KerberosAuthHandler_init env_demo (snd (KerberosAuthHandler_init env_demo world_demo)))))
     = []"
proof -
  let ?w1 = "snd (KerberosAuthHandler_init env_demo world_demo)"
  have first: "KerberosAuthHandler_init env_demo world_demo = (Inr (), ?w1)"
    by (simp add: init_demo)
  have second: "KerberosAuthHandler_init env_demo ?w1 =
      (fst (KerberosAuthHandler_init env_demo ?w1), snd (KerberosAuthHandler_init env_demo ?w1))"
    by simp
  have ran: "filter is_kinit (trace ?w1) =
      [Run (kinit_argv ''/tmp/krb5cc_1000'' ''/home/hg/hg.keytab'' ''hg@EXAMPLE.ORG'')]"
    unfolding init_demo
    by (simp add: emit_def world_cache_def world_demo_def klist_argv_def kinit_argv_def)
  have valid: "subprocess_run env_demo
      (?w1\<lparr>environ := (environ ?w1)(''KRB5CCNAME'' \<mapsto> krb5ccname env_demo)\<rparr>)
      (klist_argv (krb5ccname env_demo)) = Inr 0"
    using ran by (simp add: env_demo_def klist_argv_def)
  show ?thesis
    using ran valid_ticket_no_kinit [OF first second valid] by simp
qed

text \<open>
  C6. With keytab and principal configured, the keytab present, \<^verbatim>\<open>klist\<close> exiting with
  1 and \<^verbatim>\<open>kinit\<close> with 0, the constructor runs \<^verbatim>\<open>kinit\<close> with the cache, the keytab
  and the principal, and the line it prints on success is
  \<^verbatim>\<open>Succesfully obtained Kerberos ticket from keytab\<close>: the message of the claim,
  \<^verbatim>\<open>Successfully obtained Kerberos ticket from keytab\<close>, is never printed.
\<close>

theorem keytab_success_message_misspelled:
  "new_events world_demo (snd (KerberosAuthHandler_init env_demo world_demo)) =
     [Run [''/usr/bin/klist'', ''-c'', ''/tmp/krb5cc_1000'', ''-s''],
      Print ''No valid kerberos ticket found, trying keytab'',
      Run [''/usr/bin/kinit'', ''-k'', ''-c'', ''/tmp/krb5cc_1000'', ''-t'', ''/home/hg/hg.keytab'', ''hg@EXAMPLE.ORG''],
      Print ''Succesfully obtained Kerberos ticket from keytab'']
   \<and> Print ''Successfully obtained Kerberos ticket from keytab''
       \<notin> set (trace (snd (KerberosAuthHandler_init env_demo world_demo)))"
  unfolding init_demo
  by (simp add: new_events_def emit_def world_cache_def world_demo_def klist_argv_def kinit_argv_def)

text \<open>
  C8, as stated, fails: a configuration file the parser rejects, or a \<^verbatim>\<open>klist\<close> that
  cannot be started, makes the constructor raise.
\<close>

theorem init_raises_what_collaborators_raise:
  "fst (KerberosAuthHandler_init env_bad_hgrc world_demo) =
     Inl (ConfigParserError ''File contains no section headers.'')
   \<and> fst (KerberosAuthHandler_init env_no_klist world_demo) =
     Inl (OSError ''No such file or directory'')"
proof -
  have rc: "hgrcpath env_bad_hgrc = ''/home/hg/.hgrc''" "hgrcpath env_no_klist = ''/home/hg/.hgrc''"
    by (rule hgrcpath_demo, simp add: env_bad_hgrc_def env_no_klist_def)+
  show ?thesis
    unfolding KerberosAuthHandler_init_def rc
    by (simp add: env_bad_hgrc_def env_no_klist_def env_demo_def cfg_keytab_def has_option_def
        config_get_def Let_def)
qed

text \<open>
  C8, amended. When the configuration parser raises nothing (neither reading the file
  nor looking up an option of section \<^verbatim>\<open>krb\<close>) and starting a child process raises
  nothing, the constructor returns normally whatever the exit codes of \<^verbatim>\<open>klist\<close> and
  \<^verbatim>\<open>kinit\<close> are, and all it prints is nothing, or the notice that no valid ticket was
  found, or that notice followed by the success message.
\<close>

theorem init_returns_normally_unless_collaborator_raises:
  assumes parse: "\<forall>e. read_config E (hgrcpath E) \<noteq> Inl e"
    and lookup: "\<forall>cfg k e. read_config E (hgrcpath E) = Inr cfg \<longrightarrow> cfg (''krb'', k) \<noteq> Some (Inl e)"
    and launch: "\<forall>w' argv e. subprocess_run E w' argv \<noteq> Inl e"
    and run: "KerberosAuthHandler_init E w = (r, w')"
  shows "r = Inr ()
       \<and> filter is_print (new_events w w')
           \<in> {[], [Print ''No valid kerberos ticket found, trying keytab''],
               [Print ''No valid kerberos ticket found, trying keytab'',
                Print ''Succesfully obtained Kerberos ticket from keytab'']}"
  using run parse lookup [rule_format, of _ "''keytab''"] lookup [rule_format, of _ "''principal''"] launch
  by (auto simp: KerberosAuthHandler_init_def has_option_def config_get_def Let_def
      new_events_def emit_def
      split: sum.splits option.splits if_splits)

theorem init_returns_normally_unless_collaborator_raises_witness:
  "subprocess_run env_kinit_fails world_demo
     (kinit_argv ''/tmp/krb5cc_1000'' ''/home/hg/hg.keytab'' ''hg@EXAMPLE.ORG'') = Inr 1
   \<and> fst (KerberosAuthHandler_init env_kinit_fails world_demo) = Inr ()
   \<and> filter is_print (new_events world_demo (snd (KerberosAuthHandler_init env_kinit_fails world_demo)))
       = [Print ''No valid kerberos ticket found, trying keytab'']"
proof -
  have parse: "\<forall>e. read_config env_kinit_fails (hgrcpath env_kinit_fails) \<noteq> Inl e"
    by (simp add: env_kinit_fails_def env_demo_def)
  have lookup: "\<forall>cfg k e. read_config env_kinit_fails (hgrcpath env_kinit_fails) = Inr cfg
      \<longrightarrow> cfg (''krb'', k) \<noteq> Some (Inl e)"
    by (auto simp: env_kinit_fails_def env_demo_def cfg_keytab_def split: if_splits)
  have launch: "\<forall>w' argv e. subprocess_run env_kinit_fails w' argv \<noteq> Inl e"
    by (simp add: env_kinit_fails_def)
  have fails: "subprocess_run env_kinit_fails world_demo
      (kinit_argv ''/tmp/krb5cc_1000'' ''/home/hg/hg.keytab'' ''hg@EXAMPLE.ORG'') = Inr 1"
    by (simp add: env_kinit_fails_def)
  have printed: "filter is_print
      (new_events world_demo (snd (KerberosAuthHandler_init env_kinit_fails world_demo)))
      = [Print ''No valid kerberos ticket found, trying keytab'']"
    unfolding init_kinit_fails
    by (simp add: new_events_def emit_def world_cache_def world_demo_def)
  have run: "KerberosAuthHandler_init env_kinit_fails world_demo =
      (fst (KerberosAuthHandler_init env_kinit_fails world_demo),
       snd (KerberosAuthHandler_init env_kinit_fails world_demo))"
    by simp
  show ?thesis
    using fails printed
      init_returns_normally_unless_collaborator_raises [OF parse lookup launch run]
    by simp
qed

end
